theory Spec2Isabelle
  imports Main
begin

section \<open>sxcv.py: user-friendly OpenCV wrappers\<close>

text \<open>
  A shallow embedding of the module \<^verbatim>\<open>computer_vision/01-introduction/sxcv.py\<close>:
  the fixtures, the image describer, the region formatter \<^verbatim>\<open>examine\<close>, the debugging
  state and the display dispatcher. Python integers are \<^typ>\<open>int\<close>, Python strings are
  \<^typ>\<open>string\<close>, an exception is the left injection of a sum.
\<close>

subsection \<open>Exceptions\<close>

datatype py_error =
    ValueError string
  | IndexError
  | TypeError
  | FileNotFoundError string
  | CvError

subsection \<open>The \<^verbatim>\<open>%d\<close> conversion\<close>

text \<open>
  \<^verbatim>\<open>"%d" % i\<close> prints the decimal digits of \<open>i\<close>, with a leading minus sign when
  \<open>i\<close> is negative; \<^verbatim>\<open>"%4d" % i\<close> pads that text with blanks on the left up to four
  characters and never truncates it.
\<close>

definition digit_char :: "nat \<Rightarrow> char" where
  "digit_char d = ''0123456789'' ! d"

fun str_nat :: "nat \<Rightarrow> string" where
  "str_nat n = (if n < 10 then [digit_char n] else str_nat (n div 10) @ [digit_char (n mod 10)])"

declare str_nat.simps [simp del]

definition fmt_d :: "int \<Rightarrow> string" where
  "fmt_d i = (if i < 0 then CHR ''-'' # str_nat (nat (- i)) else str_nat (nat i))"

definition fmt_wd :: "nat \<Rightarrow> int \<Rightarrow> string" where
  "fmt_wd w i = replicate (w - length (fmt_d i)) CHR '' '' @ fmt_d i"

definition nl :: string where
  "nl = [CHR 0x0A]"

text \<open>The apostrophe, as a one-character string.\<close>

definition sq :: string where
  "sq = [CHR 0x27]"

subsection \<open>Images\<close>

text \<open>
  A numpy array: its shape, the type of its samples and the samples themselves in row-major
  order. The module builds arrays of two sample types, \<^verbatim>\<open>dtype="uint8"\<close> and
  \<^verbatim>\<open>dtype="int"\<close>; the latter is the default integer of numpy, the 64-bit \<^verbatim>\<open>int64\<close>.
\<close>

datatype dtype = uint8 | int64

fun dtype_name :: "dtype \<Rightarrow> string" where
  "dtype_name uint8 = ''uint8''"
| "dtype_name int64 = ''int64''"

record ndarray =
  shape :: "nat list"
  dtype :: dtype
  data :: "int list"

text \<open>\<^verbatim>\<open>numpy.array (rows, dtype=t)\<close> for a list of rows of equal length.\<close>

definition array2 :: "int list list \<Rightarrow> dtype \<Rightarrow> ndarray" where
  "array2 rws t = \<lparr>shape = [length rws, length (hd rws)], dtype = t, data = concat rws\<rparr>"

text \<open>
  One subscript of an indexing expression against the extent of its axis: numpy accepts
  \<open>- n \<le> i < n\<close>, counts a negative subscript from the end, and raises IndexError otherwise.
\<close>

definition norm_index :: "nat \<Rightarrow> int \<Rightarrow> py_error + nat" where
  "norm_index n i =
     (if - int n \<le> i \<and> i < int n then Inr (nat (if i < 0 then i + int n else i))
      else Inl IndexError)"

text \<open>
  \<^verbatim>\<open>"%4d" % im[y,x]\<close>. With fewer than two axes the subscript raises IndexError; with more
  than two it yields an array, which \<^verbatim>\<open>%d\<close> refuses with TypeError.
\<close>

definition fmt_pixel2 :: "ndarray \<Rightarrow> int \<Rightarrow> int \<Rightarrow> py_error + string" where
  "fmt_pixel2 im y x =
     (case shape im of
        [ny, nx] \<Rightarrow>
          (case norm_index ny y of
             Inl e \<Rightarrow> Inl e
           | Inr yy \<Rightarrow>
               (case norm_index nx x of
                  Inl e \<Rightarrow> Inl e
                | Inr xx \<Rightarrow> Inr (fmt_wd 4 (data im ! (yy * nx + xx)))))
      | [] \<Rightarrow> Inl IndexError
      | [n] \<Rightarrow> Inl IndexError
      | _ \<Rightarrow> Inl TypeError)"

text \<open>\<^verbatim>\<open>"%4d" % im[y,x,c]\<close>, likewise for three subscripts.\<close>

definition fmt_pixel3 :: "ndarray \<Rightarrow> int \<Rightarrow> int \<Rightarrow> int \<Rightarrow> py_error + string" where
  "fmt_pixel3 im y x c =
     (case shape im of
        [ny, nx, nc] \<Rightarrow>
          (case norm_index ny y of
             Inl e \<Rightarrow> Inl e
           | Inr yy \<Rightarrow>
               (case norm_index nx x of
                  Inl e \<Rightarrow> Inl e
                | Inr xx \<Rightarrow>
                    (case norm_index nc c of
                       Inl e \<Rightarrow> Inl e
                     | Inr cc \<Rightarrow> Inr (fmt_wd 4 (data im ! ((yy * nx + xx) * nc + cc))))))
      | [] \<Rightarrow> Inl IndexError
      | [n] \<Rightarrow> Inl IndexError
      | [n, m] \<Rightarrow> Inl IndexError
      | _ \<Rightarrow> Inl TypeError)"

subsection \<open>Fixtures\<close>

definition arrowhead :: ndarray where
  "arrowhead = array2 [
        [0,   0,   0,   0,   0,   0,   0,   0,   0],
        [0,   0,   0,   0, 255,   0,   0,   0,   0],
        [0,   0,   0, 255, 255, 255,   0,   0,   0],
        [0,   0, 255, 255, 255, 255, 255,   0,   0],
        [0,   0,   0,   0, 255,   0,   0,   0,   0],
        [0,   0,   0,   0, 255,   0,   0,   0,   0],
        [0,   0,   0,   0, 255,   0,   0,   0,   0],
        [0,   0,   0,   0, 255,   0,   0,   0,   0],
        [0,   0,   0,   0, 255,   0,   0,   0,   0],
        [0,   0,   0,   0,   0,   0,   0,   0,   0]
    ] uint8"

definition create_mask :: "string \<Rightarrow> py_error + ndarray" where
  "create_mask name =
     (if name = ''blur3'' then
        Inr (array2 [
            [1, 1, 1],
            [1, 1, 1],
            [1, 1, 1]
        ] int64)
      else if name = ''blur5'' then
        Inr (array2 [
            [1, 1, 1, 1, 1],
            [1, 1, 1, 1, 1],
            [1, 1, 1, 1, 1],
            [1, 1, 1, 1, 1],
            [1, 1, 1, 1, 1]
        ] int64)
      else if name = ''laplacian'' then
        Inr (array2 [
            [1,  1, 1],
            [1, -1, 1],
            [1,  1, 1]
        ] int64)
      else
        Inl (ValueError (''I don't know how to generate a '' @ sq @ name @ sq @ '' mask!'')))"

subsection \<open>The image describer\<close>

definition describe :: "ndarray \<Rightarrow> string \<Rightarrow> py_error + string" where
  "describe im title =
     (let ns = length (shape im) in
      if ns = 2 then
        (let ny = shape im ! 0; nx = shape im ! 1; channels = ''is monochrome'' in
         Inr (title @ '' '' @ channels @ '' of size '' @ fmt_d (int ny) @ '' rows x ''
              @ fmt_d (int nx) @ '' columns with '' @ dtype_name (dtype im) @ '' pixels.''))
      else if ns = 3 then
        (let ny = shape im ! 0; nx = shape im ! 1; nc = shape im ! 2;
             channels = ''has '' @ fmt_d (int nc) @ '' channels'' in
         Inr (title @ '' '' @ channels @ '' of size '' @ fmt_d (int ny) @ '' rows x ''
              @ fmt_d (int nx) @ '' columns with '' @ dtype_name (dtype im) @ '' pixels.''))
      else
        Inl (ValueError (''I have a '' @ sq @ fmt_d (int ns) @ sq @ ''-dimensional image!'')))"

subsection \<open>The region formatter\<close>

text \<open>\<^verbatim>\<open>range (lo, hi)\<close> over Python integers.\<close>

definition py_range :: "int \<Rightarrow> int \<Rightarrow> int list" where
  "py_range lo hi = [lo..hi - 1]"

text \<open>
  The values that \<^verbatim>\<open>examine\<close> works out before it writes any text: the extents of the
  image, the centre and the region to display. An omitted argument is \<open>None\<close> and takes the
  default of the signature \<^verbatim>\<open>examine (im, aty=None, atx=None, rows=15, cols=15, title=None)\<close>.
\<close>

record region =
  im_ny :: int
  im_nx :: int
  im_nc :: int
  at_y :: int
  at_x :: int
  ylo :: int
  yhi :: int
  rows :: int
  xlo :: int
  xhi :: int
  cols :: int

definition examine_region ::
  "ndarray \<Rightarrow> int option \<Rightarrow> int option \<Rightarrow> int option \<Rightarrow> int option \<Rightarrow> region" where
  "examine_region im aty atx rws cls =
     (let ny = int (shape im ! 0);
          nx = int (shape im ! 1);
          nc = (if length (shape im) < 3 then 0 else int (shape im ! 2));
          aty' = (case aty of None \<Rightarrow> ny div 2 | Some a \<Rightarrow> a);
          atx' = (case atx of None \<Rightarrow> nx div 2 | Some a \<Rightarrow> a);
          rws' = (case rws of None \<Rightarrow> 15 | Some n \<Rightarrow> n);
          cls' = (case cls of None \<Rightarrow> 15 | Some n \<Rightarrow> n);
          ylo' = max (aty' - rws' div 2) 0;
          yhi' = min (ylo' + rws') ny;
          xlo' = max (atx' - cls' div 2) 0;
          xhi' = min (xlo' + cls') nx
      in \<lparr>im_ny = ny, im_nx = nx, im_nc = nc, at_y = aty', at_x = atx',
          ylo = ylo', yhi = yhi', rows = yhi' - ylo',
          xlo = xlo', xhi = xhi', cols = xhi' - xlo'\<rparr>)"

definition start :: string where
  "start = ''       ''"

text \<open>The title, the line about the region, the header line and the rule under it.\<close>

definition examine_head :: "region \<Rightarrow> string option \<Rightarrow> string" where
  "examine_head r title =
     (let text = (case title of None \<Rightarrow> [] | Some t \<Rightarrow> t @ nl);
          channels = (if im_nc r = 0 then ''monochrome'' else fmt_d (im_nc r) @ ''-channel'');
          text = text @ ''['' @ fmt_d (rows r) @ '' x '' @ fmt_d (cols r) @ '' region of ''
                 @ fmt_d (im_ny r) @ '' x '' @ fmt_d (im_nx r) @ ''-pixel '' @ channels
                 @ '' image at ('' @ fmt_d (at_y r) @ '','' @ fmt_d (at_x r) @ '')]:'' @ nl;
          line = concat (map (fmt_wd 4) (py_range (xlo r) (xhi r)))
      in text @ start @ line @ nl @ start @ replicate (length line) CHR ''-'' @ nl)"

text \<open>\<^verbatim>\<open>for x in range (xlo, xhi): text += "%4d" % im[y,x]\<close>\<close>

fun pixels2 :: "ndarray \<Rightarrow> int \<Rightarrow> int list \<Rightarrow> string \<Rightarrow> py_error + string" where
  "pixels2 im y [] text = Inr text"
| "pixels2 im y (x # xs) text =
     (case fmt_pixel2 im y x of
        Inl e \<Rightarrow> Inl e
      | Inr s \<Rightarrow> pixels2 im y xs (text @ s))"

text \<open>\<^verbatim>\<open>for x in range (xlo, xhi): text += "%4d" % im[y,x,c]\<close>\<close>

fun pixels3 :: "ndarray \<Rightarrow> int \<Rightarrow> int \<Rightarrow> int list \<Rightarrow> string \<Rightarrow> py_error + string" where
  "pixels3 im y c [] text = Inr text"
| "pixels3 im y c (x # xs) text =
     (case fmt_pixel3 im y x c of
        Inl e \<Rightarrow> Inl e
      | Inr s \<Rightarrow> pixels3 im y c xs (text @ s))"

text \<open>The loop over the channels of one row of a multi-channel image.\<close>

fun channel_lines :: "ndarray \<Rightarrow> int \<Rightarrow> int list \<Rightarrow> int list \<Rightarrow> string \<Rightarrow> py_error + string" where
  "channel_lines im y xs [] text = Inr text"
| "channel_lines im y xs (c # cs) text =
     (let text = (if c > 0 then text @ take (length start - 2) start @ ''| '' else text) in
      case pixels3 im y c xs text of
        Inl e \<Rightarrow> Inl e
      | Inr text \<Rightarrow> channel_lines im y xs cs (text @ nl))"

text \<open>The loop over the rows of the region.\<close>

fun examine_lines :: "ndarray \<Rightarrow> int \<Rightarrow> int list \<Rightarrow> int list \<Rightarrow> string \<Rightarrow> py_error + string" where
  "examine_lines im nc xs [] text = Inr text"
| "examine_lines im nc xs (y # ys) text =
     (let text = text @ fmt_wd 5 y @ ''| '' in
      if nc = 0 then
        (case pixels2 im y xs text of
           Inl e \<Rightarrow> Inl e
         | Inr text \<Rightarrow> examine_lines im nc xs ys (text @ nl))
      else
        (case channel_lines im y xs (py_range 0 nc) text of
           Inl e \<Rightarrow> Inl e
         | Inr text \<Rightarrow> examine_lines im nc xs ys text))"

text \<open>
  \<^verbatim>\<open>im.shape[0]\<close> and \<^verbatim>\<open>im.shape[1]\<close> raise IndexError on an array of fewer than two
  axes, before anything else is computed.
\<close>

definition examine ::
  "ndarray \<Rightarrow> int option \<Rightarrow> int option \<Rightarrow> int option \<Rightarrow> int option \<Rightarrow> string option
   \<Rightarrow> py_error + string" where
  "examine im aty atx rws cls title =
     (if length (shape im) < 2 then Inl IndexError
      else
        (let r = examine_region im aty atx rws cls in
         examine_lines im (im_nc r) (py_range (xlo r) (xhi r)) (py_range (ylo r) (yhi r))
           (examine_head r title)))"

subsection \<open>The process and its surroundings\<close>

text \<open>
  What the module does to the outside world, in the order it does it: a line on the
  terminal, a file created or deleted, an external command run, a window shown, waited on
  or destroyed.
\<close>

datatype event =
    Print string
  | Created string
  | Deleted string
  | Ran string
  | Shown string ndarray
  | Waited int
  | Destroyed string

text \<open>
  \<^verbatim>\<open>cv2.imwrite\<close> writes the file and returns True, or returns False and leaves no file,
  or raises before it opens one (an image it cannot encode).
\<close>

datatype imwrite_outcome = Written | NotWritten | Refused

text \<open>
  The globals of the module (\<open>DEBUG\<close>, \<open>ENVIRONMENT\<close>, \<open>systype\<close>), the name of the program,
  the files that exist, what has happened so far, and the answers of the surroundings: the
  names that \<^verbatim>\<open>tempfile\<close> hands out, one per request, what \<^verbatim>\<open>cv2.imwrite\<close> does with
  a file name and an image, and the exit status of a shell command.
\<close>

record state =
  DEBUG :: bool
  ENVIRONMENT :: "string list"
  systype :: string
  argv0 :: string
  files :: "string set"
  trace :: "event list"
  ntemp :: nat
  tmpnames :: "nat \<Rightarrow> string"
  imwrite_result :: "string \<Rightarrow> ndarray \<Rightarrow> imwrite_outcome"
  system_status :: "string \<Rightarrow> int"

subsection \<open>Debugging support\<close>

definition debug_set :: "bool \<Rightarrow> state \<Rightarrow> state" where
  "debug_set v w = w\<lparr>DEBUG := v\<rparr>"

definition debugging :: "state \<Rightarrow> bool" where
  "debugging w = DEBUG w"

definition debug_off :: "state \<Rightarrow> state" where
  "debug_off w = debug_set False w"

definition debug_on :: "state \<Rightarrow> state" where
  "debug_on w = debug_set True w"

subsection \<open>Library calls\<close>

definition print_line :: "string \<Rightarrow> state \<Rightarrow> state" where
  "print_line s w = w\<lparr>trace := trace w @ [Print s]\<rparr>"

text \<open>
  \<^verbatim>\<open>tempfile.NamedTemporaryFile (suffix=s).name\<close>: a file of a name not used before is
  created; only the name is kept, so the file object is dropped at once, which closes the
  file and deletes it.
\<close>

definition NamedTemporaryFile_name :: "string \<Rightarrow> state \<Rightarrow> string \<times> state" where
  "NamedTemporaryFile_name suffix w =
     (let fn = tmpnames w (ntemp w) @ suffix;
          w = w\<lparr>ntemp := Suc (ntemp w), files := insert fn (files w),
                trace := trace w @ [Created fn]\<rparr>
      in (fn, w\<lparr>files := files w - {fn}, trace := trace w @ [Deleted fn]\<rparr>))"

definition imwrite :: "string \<Rightarrow> ndarray \<Rightarrow> state \<Rightarrow> py_error option \<times> state" where
  "imwrite fn im w =
     (case imwrite_result w fn im of
        Written \<Rightarrow> (None, w\<lparr>files := insert fn (files w), trace := trace w @ [Created fn]\<rparr>)
      | NotWritten \<Rightarrow> (None, w)
      | Refused \<Rightarrow> (Some CvError, w))"

text \<open>\<^verbatim>\<open>os.system\<close> runs the command and returns its exit status; it does not raise.\<close>

definition os_system :: "string \<Rightarrow> state \<Rightarrow> int \<times> state" where
  "os_system cmd w = (system_status w cmd, w\<lparr>trace := trace w @ [Ran cmd]\<rparr>)"

definition os_remove :: "string \<Rightarrow> state \<Rightarrow> py_error option \<times> state" where
  "os_remove fn w =
     (if fn \<in> files w
      then (None, w\<lparr>files := files w - {fn}, trace := trace w @ [Deleted fn]\<rparr>)
      else (Some (FileNotFoundError fn), w))"

subsection \<open>Displaying an image\<close>

definition display_sixel :: "state \<Rightarrow> ndarray \<Rightarrow> string \<Rightarrow> int \<Rightarrow> py_error option \<times> state" where
  "display_sixel w im title levels =
     (let w = print_line (title @ '':'') w;
          (fn, w) = NamedTemporaryFile_name ''.png'' w
      in case imwrite fn im w of
           (Some e, w) \<Rightarrow> (Some e, w)
         | (None, w) \<Rightarrow>
             (let cmd = ''img2sixel -p '' @ fmt_d levels @ '' '' @ fn @ '' 2>/dev/null'';
                  (status, w) = os_system cmd w
              in case os_remove fn w of
                   (Some e, w) \<Rightarrow> (Some e, w)
                 | (None, w) \<Rightarrow> (None, print_line [] w)))"

definition display :: "state \<Rightarrow> ndarray \<Rightarrow> string option \<Rightarrow> int \<Rightarrow> bool \<Rightarrow> state" where
  "display w im title delay destroy =
     (let title = (case title of None \<Rightarrow> argv0 w | Some t \<Rightarrow> t);
          w = w\<lparr>trace := trace w @ [Shown title im]\<rparr>;
          w = w\<lparr>trace := trace w @ [Waited delay]\<rparr>
      in if destroy then w\<lparr>trace := trace w @ [Destroyed title]\<rparr> else w)"

definition ddisplay ::
  "state \<Rightarrow> ndarray \<Rightarrow> string \<Rightarrow> int \<Rightarrow> bool \<Rightarrow> py_error option \<times> state" where
  "ddisplay w im title delay destroy =
     (if debugging w then
        if ''sixel16'' \<in> set (ENVIRONMENT w) \<and> systype w \<noteq> ''Windows'' then
          display_sixel w im title 16
        else if ''sixel256'' \<in> set (ENVIRONMENT w) \<and> systype w \<noteq> ''Windows'' then
          display_sixel w im title 256
        else
          (None, display w im (Some title) delay destroy)
      else (None, w))"

section \<open>Properties\<close>

subsection \<open>The image describer\<close>

text \<open>
  Claim C1. \<^verbatim>\<open>describe (im, title)\<close> raises ValueError, with the number of axes in the
  message, exactly when the image has neither two nor three axes. With two axes the sentence
  says "is monochrome", with three it says "has N channels" for the extent N of the third
  axis, and in both it gives the numbers of rows and columns and the sample type of the
  image. For the arrowhead image and the title "This image" the sentence is the one of the
  test in the documentation.
\<close>

theorem describe_spec:
  "(length (shape im) \<noteq> 2 \<and> length (shape im) \<noteq> 3 \<longrightarrow>
      describe im title =
        Inl (ValueError (''I have a '' @ sq @ fmt_d (int (length (shape im))) @ sq
                         @ ''-dimensional image!'')))
   \<and> (shape im = [ny, nx] \<longrightarrow>
      describe im title =
        Inr (title @ '' is monochrome of size '' @ fmt_d (int ny) @ '' rows x ''
             @ fmt_d (int nx) @ '' columns with '' @ dtype_name (dtype im) @ '' pixels.''))
   \<and> (shape im = [ny, nx, nc] \<longrightarrow>
      describe im title =
        Inr (title @ '' has '' @ fmt_d (int nc) @ '' channels of size '' @ fmt_d (int ny)
             @ '' rows x '' @ fmt_d (int nx) @ '' columns with '' @ dtype_name (dtype im)
             @ '' pixels.''))
   \<and> ((\<exists>e. describe im title = Inl e) \<longleftrightarrow> length (shape im) \<notin> {2, 3})
   \<and> describe arrowhead ''This image'' =
        Inr ''This image is monochrome of size 10 rows x 9 columns with uint8 pixels.''"
proof -
  have a: "describe arrowhead ''This image'' =
        Inr ''This image is monochrome of size 10 rows x 9 columns with uint8 pixels.''"
    by code_simp
  have b: "(\<exists>e. describe im title = Inl e) \<longleftrightarrow> length (shape im) \<notin> {2, 3}"
    by (simp add: describe_def Let_def)
  show ?thesis using a b by (simp add: describe_def Let_def)
qed

theorem describe_spec_witness:
  "describe \<lparr>shape = [4], dtype = uint8, data = [1, 2, 3, 4]\<rparr> ''Image'' =
     Inl (ValueError ''I have a '1'-dimensional image!'')
   \<and> describe \<lparr>shape = [1, 2], dtype = uint8, data = [7, 8]\<rparr> ''Image'' =
     Inr ''Image is monochrome of size 1 rows x 2 columns with uint8 pixels.''
   \<and> describe \<lparr>shape = [1, 2, 3], dtype = uint8, data = [1, 2, 3, 4, 5, 6]\<rparr> ''Image'' =
     Inr ''Image has 3 channels of size 1 rows x 2 columns with uint8 pixels.''"
proof -
  have f: "fmt_d 1 = ''1''" "fmt_d 2 = ''2''" "fmt_d 3 = ''3''" by code_simp+
  show ?thesis
    using describe_spec [where im = "\<lparr>shape = [4], dtype = uint8, data = [1, 2, 3, 4]\<rparr>"
        and title = "''Image''"]
      describe_spec [where im = "\<lparr>shape = [1, 2], dtype = uint8, data = [7, 8]\<rparr>"
        and title = "''Image''" and ny = 1 and nx = 2]
      describe_spec [where im = "\<lparr>shape = [1, 2, 3], dtype = uint8, data = [1, 2, 3, 4, 5, 6]\<rparr>"
        and title = "''Image''" and ny = 1 and nx = 2 and nc = 3]
    by (simp add: f sq_def)
qed

subsection \<open>The convolution masks\<close>

text \<open>
  Claim C2. \<^verbatim>\<open>create_mask\<close> returns for "blur3" a 3 by 3 integer array of ones, for
  "blur5" a 5 by 5 integer array of ones, for "laplacian" a 3 by 3 integer array of ones
  with \<open>-1\<close> in the middle (row 1, column 1, the fifth sample in row-major order), and
  raises ValueError with the name in the message for every other name.
\<close>

theorem create_mask_spec:
  "create_mask ''blur3'' = Inr \<lparr>shape = [3, 3], dtype = int64, data = replicate 9 1\<rparr>
   \<and> create_mask ''blur5'' = Inr \<lparr>shape = [5, 5], dtype = int64, data = replicate 25 1\<rparr>
   \<and> create_mask ''laplacian'' =
       Inr \<lparr>shape = [3, 3], dtype = int64, data = [1, 1, 1,  1, - 1, 1,  1, 1, 1]\<rparr>
   \<and> (name \<notin> {''blur3'', ''blur5'', ''laplacian''} \<longrightarrow>
       create_mask name =
         Inl (ValueError (''I don't know how to generate a '' @ sq @ name @ sq @ '' mask!'')))"
  by (simp add: create_mask_def array2_def eval_nat_numeral)

theorem create_mask_spec_witness:
  "create_mask ''whatsit'' = Inl (ValueError ''I don't know how to generate a 'whatsit' mask!'')"
  using create_mask_spec [of "''whatsit''"] by (simp add: sq_def)

subsection \<open>The debugging state\<close>

text \<open>
  Claim C9. After \<^verbatim>\<open>debug_set (v)\<close> the call \<^verbatim>\<open>debugging ()\<close> returns \<open>v\<close>, whatever
  the flag and the environment keywords were; \<^verbatim>\<open>debug_on\<close> is \<^verbatim>\<open>debug_set (True)\<close>
  and \<^verbatim>\<open>debug_off\<close> is \<^verbatim>\<open>debug_set (False)\<close>. The four operations are total: they
  have no failing branch, and \<^verbatim>\<open>debug_set\<close> changes the flag and nothing else.
\<close>

theorem debug_set_spec:
  "debugging (debug_set v w) = v
   \<and> debug_on w = debug_set True w
   \<and> debug_off w = debug_set False w
   \<and> debugging (debug_on w) = True
   \<and> debugging (debug_off w) = False
   \<and> ENVIRONMENT (debug_set v w) = ENVIRONMENT w
   \<and> debug_set v w = w\<lparr>DEBUG := v\<rparr>"
  by (simp add: debug_set_def debugging_def debug_on_def debug_off_def)

subsection \<open>The display dispatcher\<close>

text \<open>
  Claim C5. With the debugging flag off, \<^verbatim>\<open>ddisplay\<close> returns at once and leaves the
  process and its surroundings as they were: no window, no line on the terminal, no file
  created or deleted, whatever the image, the title, the delay, the destroy flag and the
  environment keywords.
\<close>

theorem ddisplay_noop:
  "\<not> DEBUG w \<Longrightarrow> ddisplay w im title delay destroy = (None, w)"
  by (simp add: ddisplay_def debugging_def)

theorem ddisplay_noop_witness:
  "\<not> DEBUG \<lparr>DEBUG = False, ENVIRONMENT = [''sixel256''], systype = ''Linux'',
        argv0 = ''prog'', files = {}, trace = [], ntemp = 0, tmpnames = (\<lambda>n. ''/tmp/tmp''),
        imwrite_result = (\<lambda>fn im. Written), system_status = (\<lambda>cmd. 0)\<rparr>
   \<and> ddisplay \<lparr>DEBUG = False, ENVIRONMENT = [''sixel256''], systype = ''Linux'',
        argv0 = ''prog'', files = {}, trace = [], ntemp = 0, tmpnames = (\<lambda>n. ''/tmp/tmp''),
        imwrite_result = (\<lambda>fn im. Written), system_status = (\<lambda>cmd. 0)\<rparr>
        arrowhead ''Arrowhead'' 0 True =
      (None, \<lparr>DEBUG = False, ENVIRONMENT = [''sixel256''], systype = ''Linux'',
        argv0 = ''prog'', files = {}, trace = [], ntemp = 0, tmpnames = (\<lambda>n. ''/tmp/tmp''),
        imwrite_result = (\<lambda>fn im. Written), system_status = (\<lambda>cmd. 0)\<rparr>)"
  using ddisplay_noop [of "\<lparr>DEBUG = False, ENVIRONMENT = [''sixel256''], systype = ''Linux'',
        argv0 = ''prog'', files = {}, trace = [], ntemp = 0, tmpnames = (\<lambda>n. ''/tmp/tmp''),
        imwrite_result = (\<lambda>fn im. Written), system_status = (\<lambda>cmd. 0)\<rparr>"
        arrowhead "''Arrowhead''" 0 True]
  by simp

text \<open>
  Claim C6. With the debugging flag on, \<^verbatim>\<open>ddisplay\<close> shows the image through
  \<^verbatim>\<open>display_sixel\<close> with 16 levels when the keyword "sixel16" is set and the system is
  not Windows; otherwise through \<^verbatim>\<open>display_sixel\<close> with 256 levels when "sixel256" is
  set and the system is not Windows; and in every other case in a window, through
  \<^verbatim>\<open>display\<close> with the title, the delay and the destroy flag it was given.
\<close>

theorem ddisplay_dispatch:
  "DEBUG w \<Longrightarrow>
   (''sixel16'' \<in> set (ENVIRONMENT w) \<and> systype w \<noteq> ''Windows'' \<longrightarrow>
      ddisplay w im title delay destroy = display_sixel w im title 16)
   \<and> (''sixel16'' \<notin> set (ENVIRONMENT w) \<and> ''sixel256'' \<in> set (ENVIRONMENT w)
        \<and> systype w \<noteq> ''Windows'' \<longrightarrow>
      ddisplay w im title delay destroy = display_sixel w im title 256)
   \<and> ((''sixel16'' \<notin> set (ENVIRONMENT w) \<and> ''sixel256'' \<notin> set (ENVIRONMENT w))
        \<or> systype w = ''Windows'' \<longrightarrow>
      ddisplay w im title delay destroy = (None, display w im (Some title) delay destroy)
      \<and> trace (display w im (Some title) delay destroy) =
          trace w @ [Shown title im, Waited delay] @ (if destroy then [Destroyed title] else [])
      \<and> files (display w im (Some title) delay destroy) = files w)"
  by (auto simp add: ddisplay_def debugging_def display_def Let_def)

theorem ddisplay_dispatch_witness:
  "(let w = \<lparr>DEBUG = True, ENVIRONMENT = [''debug'', ''sixel16''], systype = ''Linux'',
        argv0 = ''prog'', files = {}, trace = [], ntemp = 0, tmpnames = (\<lambda>n. ''/tmp/tmp''),
        imwrite_result = (\<lambda>fn im. Written), system_status = (\<lambda>cmd. 0)\<rparr>
    in DEBUG w \<and> ddisplay w arrowhead ''Arrowhead'' 0 True = display_sixel w arrowhead ''Arrowhead'' 16)
   \<and> (let w = \<lparr>DEBUG = True, ENVIRONMENT = [''debug'', ''sixel256''], systype = ''Darwin'',
        argv0 = ''prog'', files = {}, trace = [], ntemp = 0, tmpnames = (\<lambda>n. ''/tmp/tmp''),
        imwrite_result = (\<lambda>fn im. Written), system_status = (\<lambda>cmd. 0)\<rparr>
    in DEBUG w \<and> ddisplay w arrowhead ''Arrowhead'' 0 True = display_sixel w arrowhead ''Arrowhead'' 256)
   \<and> (let w = \<lparr>DEBUG = True, ENVIRONMENT = [''debug'', ''sixel16''], systype = ''Windows'',
        argv0 = ''prog'', files = {}, trace = [], ntemp = 0, tmpnames = (\<lambda>n. ''/tmp/tmp''),
        imwrite_result = (\<lambda>fn im. Written), system_status = (\<lambda>cmd. 0)\<rparr>
    in DEBUG w \<and> ddisplay w arrowhead ''Arrowhead'' 40 True =
         (None, w\<lparr>trace := [Shown ''Arrowhead'' arrowhead, Waited 40, Destroyed ''Arrowhead'']\<rparr>))"
  using ddisplay_dispatch [of "\<lparr>DEBUG = True, ENVIRONMENT = [''debug'', ''sixel16''],
        systype = ''Linux'',
        argv0 = ''prog'', files = {}, trace = [], ntemp = 0, tmpnames = (\<lambda>n. ''/tmp/tmp''),
        imwrite_result = (\<lambda>fn im. Written), system_status = (\<lambda>cmd. 0)\<rparr>"
        arrowhead "''Arrowhead''" 0 True]
    ddisplay_dispatch [of "\<lparr>DEBUG = True, ENVIRONMENT = [''debug'', ''sixel256''],
        systype = ''Darwin'',
        argv0 = ''prog'', files = {}, trace = [], ntemp = 0, tmpnames = (\<lambda>n. ''/tmp/tmp''),
        imwrite_result = (\<lambda>fn im. Written), system_status = (\<lambda>cmd. 0)\<rparr>"
        arrowhead "''Arrowhead''" 0 True]
    ddisplay_dispatch [of "\<lparr>DEBUG = True, ENVIRONMENT = [''debug'', ''sixel16''],
        systype = ''Windows'',
        argv0 = ''prog'', files = {}, trace = [], ntemp = 0, tmpnames = (\<lambda>n. ''/tmp/tmp''),
        imwrite_result = (\<lambda>fn im. Written), system_status = (\<lambda>cmd. 0)\<rparr>"
        arrowhead "''Arrowhead''" 40 True]
  by (simp add: Let_def display_def)

text \<open>
  Claim C7. In every run of \<^verbatim>\<open>display_sixel\<close> each file created under the temporary
  name has been deleted again when the function is left, on every way out. When
  \<^verbatim>\<open>cv2.imwrite\<close> has written the file, the command is run and the file is deleted
  exactly once after it, whatever the exit status of the command, which is not looked at.
\<close>

theorem display_sixel_tempfile:
  assumes "fn = tmpnames w (ntemp w) @ ''.png''"
    and "cmd = ''img2sixel -p '' @ fmt_d levels @ '' '' @ fn @ '' 2>/dev/null''"
    and "display_sixel w im title levels = (r, w')"
  shows "files w' = files w - {fn}
     \<and> (imwrite_result w fn im = Written \<longrightarrow>
          r = None
          \<and> trace w' = trace w @ [Print (title @ '':''), Created fn, Deleted fn,
                                  Created fn, Ran cmd, Deleted fn, Print []])
     \<and> (imwrite_result w fn im = NotWritten \<longrightarrow>
          r = Some (FileNotFoundError fn)
          \<and> trace w' = trace w @ [Print (title @ '':''), Created fn, Deleted fn, Ran cmd])
     \<and> (imwrite_result w fn im = Refused \<longrightarrow>
          r = Some CvError
          \<and> trace w' = trace w @ [Print (title @ '':''), Created fn, Deleted fn])"
  using assms
  by (cases "imwrite_result w (tmpnames w (ntemp w) @ ''.png'') im")
     (auto simp add: display_sixel_def print_line_def NamedTemporaryFile_name_def imwrite_def
        os_system_def os_remove_def Let_def)

theorem display_sixel_tempfile_witness:
  "(let w = \<lparr>DEBUG = True, ENVIRONMENT = [''debug'', ''sixel256''], systype = ''Linux'',
        argv0 = ''prog'', files = {''/tmp/other.png''}, trace = [], ntemp = 0,
        tmpnames = (\<lambda>n. ''/tmp/tmp0''),
        imwrite_result = (\<lambda>fn im. Written), system_status = (\<lambda>cmd. 127)\<rparr>;
        res = display_sixel w arrowhead ''Arrowhead'' 256
    in system_status w ''img2sixel -p 256 /tmp/tmp0.png 2>/dev/null'' = 127
       \<and> fst res = None
       \<and> files (snd res) = {''/tmp/other.png''}
       \<and> trace (snd res) =
           [Print ''Arrowhead:'', Created ''/tmp/tmp0.png'', Deleted ''/tmp/tmp0.png'',
            Created ''/tmp/tmp0.png'', Ran ''img2sixel -p 256 /tmp/tmp0.png 2>/dev/null'',
            Deleted ''/tmp/tmp0.png'', Print []])"
proof -
  have e: "fmt_d 256 = ''256''" by code_simp
  show ?thesis
    using display_sixel_tempfile [where w = "\<lparr>DEBUG = True,
        ENVIRONMENT = [''debug'', ''sixel256''], systype = ''Linux'',
        argv0 = ''prog'', files = {''/tmp/other.png''}, trace = [], ntemp = 0,
        tmpnames = (\<lambda>n. ''/tmp/tmp0''),
        imwrite_result = (\<lambda>fn im. Written), system_status = (\<lambda>cmd. 127)\<rparr>"
        and im = arrowhead and title = "''Arrowhead''" and levels = 256,
        OF refl refl prod.collapse [symmetric]]
    by (simp add: e Let_def)
qed

subsection \<open>The region formatter\<close>

lemma clip_bounds:
  fixes c n ext :: int
  assumes "lo = max (c - n div 2) 0" and "hi = min (lo + n) ext" and "0 \<le> ext"
  shows "hi - lo \<le> ext" and "hi - lo \<le> n"
    and "0 \<le> n \<Longrightarrow> c - n div 2 \<le> ext \<Longrightarrow> 0 \<le> hi - lo"
  using assms by (auto simp add: min_def max_def)

lemma region_sel:
  "im_ny (examine_region im aty atx rws cls) = int (shape im ! 0)"
  "im_nx (examine_region im aty atx rws cls) = int (shape im ! 1)"
  "ylo (examine_region im (Some cy) atx (Some n) cls) = max (cy - n div 2) 0"
  "yhi (examine_region im (Some cy) atx (Some n) cls) =
     min (max (cy - n div 2) 0 + n) (int (shape im ! 0))"
  "xlo (examine_region im aty (Some cx) rws (Some m)) = max (cx - m div 2) 0"
  "xhi (examine_region im aty (Some cx) rws (Some m)) =
     min (max (cx - m div 2) 0 + m) (int (shape im ! 1))"
  "rows (examine_region im aty atx rws cls) =
     yhi (examine_region im aty atx rws cls) - ylo (examine_region im aty atx rws cls)"
  "cols (examine_region im aty atx rws cls) =
     xhi (examine_region im aty atx rws cls) - xlo (examine_region im aty atx rws cls)"
  unfolding examine_region_def Let_def by simp_all

text \<open>
  Claim C3, as amended. For each of the two axes \<^verbatim>\<open>examine\<close> works out
  \<open>lo = max (centre - requested div 2) 0\<close>, \<open>hi = min (lo + requested) extent\<close> and the size
  \<open>hi - lo\<close>. The size is never more than the extent of the image nor more than what was
  requested, and the computation is total. The size is at least zero when the requested
  count is at least zero and \<open>centre - requested div 2\<close> is not beyond the extent, which
  holds for every centre inside the image.
\<close>

theorem examine_region_clip:
  assumes "r = examine_region im (Some cy) (Some cx) (Some n) (Some m)"
  shows "im_ny r = int (shape im ! 0) \<and> im_nx r = int (shape im ! 1)
     \<and> ylo r = max (cy - n div 2) 0 \<and> yhi r = min (ylo r + n) (im_ny r)
     \<and> rows r = yhi r - ylo r
     \<and> xlo r = max (cx - m div 2) 0 \<and> xhi r = min (xlo r + m) (im_nx r)
     \<and> cols r = xhi r - xlo r
     \<and> rows r \<le> im_ny r \<and> cols r \<le> im_nx r
     \<and> rows r \<le> n \<and> cols r \<le> m
     \<and> (0 \<le> n \<and> cy - n div 2 \<le> im_ny r \<longrightarrow> 0 \<le> rows r)
     \<and> (0 \<le> m \<and> cx - m div 2 \<le> im_nx r \<longrightarrow> 0 \<le> cols r)"
proof -
  let ?R = "examine_region im (Some cy) (Some cx) (Some n) (Some m)"
  have p: "0 \<le> int (shape im ! 0)" "0 \<le> int (shape im ! 1)"
    by simp_all
  have e1: "im_ny ?R = int (shape im ! 0)" and e2: "im_nx ?R = int (shape im ! 1)"
    and e3: "ylo ?R = max (cy - n div 2) 0" and e4: "yhi ?R = min (ylo ?R + n) (im_ny ?R)"
    and e5: "rows ?R = yhi ?R - ylo ?R"
    and e6: "xlo ?R = max (cx - m div 2) 0" and e7: "xhi ?R = min (xlo ?R + m) (im_nx ?R)"
    and e8: "cols ?R = xhi ?R - xlo ?R"
    by (simp_all only: region_sel)
  have y1: "rows ?R \<le> im_ny ?R" and y2: "rows ?R \<le> n"
    and y3: "0 \<le> n \<and> cy - n div 2 \<le> im_ny ?R \<longrightarrow> 0 \<le> rows ?R"
    using clip_bounds [OF e3 e4] p(1) unfolding e5 e1 by blast+
  have x1: "cols ?R \<le> im_nx ?R" and x2: "cols ?R \<le> m"
    and x3: "0 \<le> m \<and> cx - m div 2 \<le> im_nx ?R \<longrightarrow> 0 \<le> cols ?R"
    using clip_bounds [OF e6 e7] p(2) unfolding e8 e2 by blast+
  show ?thesis
    unfolding assms
    by (intro conjI) (fact e1 e2 e3 e4 e5 e6 e7 e8 y1 y2 y3 x1 x2 x3)+
qed

theorem examine_region_clip_witness:
  "examine_region arrowhead (Some 0) (Some 8) (Some 5) (Some 5) =
     \<lparr>im_ny = 10, im_nx = 9, im_nc = 0, at_y = 0, at_x = 8,
      ylo = 0, yhi = 5, rows = 5, xlo = 6, xhi = 9, cols = 3\<rparr>
   \<and> 0 \<le> rows (examine_region arrowhead (Some 0) (Some 8) (Some 5) (Some 5))
   \<and> 0 \<le> cols (examine_region arrowhead (Some 0) (Some 8) (Some 5) (Some 5))"
  using examine_region_clip [OF refl, of arrowhead 0 8 5 5]
  by (simp add: examine_region_def arrowhead_def array2_def Let_def)

text \<open>
  Claim C3 as stated fails: a centre beyond the last row gives a negative number of rows.
\<close>

theorem examine_region_negative_counterexample:
  "\<not> 0 \<le> rows (examine_region arrowhead (Some 100) (Some 4) (Some 3) (Some 3))"
  by (simp add: examine_region_def arrowhead_def array2_def Let_def)

text \<open>
  Claim C4. Without explicit counts the region is the one of 15 rows and 15 columns around
  the centre of the image, which is the whole image only when the image has at most 15 rows
  and columns: of an image of 16 by 16 pixels the first row and the first column are left
  out.
\<close>

theorem examine_default_region:
  "examine_region im None None None None =
     examine_region im (Some (int (shape im ! 0) div 2)) (Some (int (shape im ! 1) div 2))
       (Some 15) (Some 15)
   \<and> examine_region \<lparr>shape = [16, 16], dtype = uint8, data = replicate 256 0\<rparr>
       None None None None =
     \<lparr>im_ny = 16, im_nx = 16, im_nc = 0, at_y = 8, at_x = 8,
      ylo = 1, yhi = 16, rows = 15, xlo = 1, xhi = 16, cols = 15\<rparr>"
  by (simp add: examine_region_def Let_def)

lemma fmt_small:
  "fmt_d 0 = ''0''" "fmt_d 1 = ''1''" "fmt_d 2 = ''2''" "fmt_d 3 = ''3''"
  "fmt_wd 4 0 = ''   0''" "fmt_wd 4 1 = ''   1''" "fmt_wd 4 2 = ''   2''"
  "fmt_wd 4 (- 1) = ''  -1''"
  "fmt_wd 5 0 = ''    0''" "fmt_wd 5 1 = ''    1''" "fmt_wd 5 2 = ''    2''"
  by code_simp+

lemma py_range_0_3: "py_range 0 3 = [0, 1, 2]"
  by code_simp

lemma laplacian_region:
  "examine_region (array2 [[1, 1, 1], [1, - 1, 1], [1, 1, 1]] int64) None None None None =
     \<lparr>im_ny = 3, im_nx = 3, im_nc = 0, at_y = 1, at_x = 1,
      ylo = 0, yhi = 3, rows = 3, xlo = 0, xhi = 3, cols = 3\<rparr>"
  by (simp add: examine_region_def array2_def Let_def)

text \<open>
  Claim C8. \<^verbatim>\<open>examine (create_mask ("laplacian"))\<close> returns the text of the test in the
  documentation: a 3 x 3 region of a 3 x 3-pixel monochrome image at (1,1), and the samples
  of the mask, each in a field of four characters, the \<open>-1\<close> as two blanks, the sign and
  the digit.
\<close>

theorem examine_laplacian:
  "\<exists>im. create_mask ''laplacian'' = Inr im
     \<and> examine im None None None None None =
         Inr (''[3 x 3 region of 3 x 3-pixel monochrome image at (1,1)]:'' @ nl
              @ ''          0   1   2'' @ nl
              @ ''       ------------'' @ nl
              @ ''    0|    1   1   1'' @ nl
              @ ''    1|    1  -1   1'' @ nl
              @ ''    2|    1   1   1'' @ nl)
     \<and> map (fmt_wd 4) (data im) =
         [''   1'', ''   1'', ''   1'', ''   1'', ''  -1'', ''   1'', ''   1'', ''   1'', ''   1'']"
proof -
  let ?im = "array2 [[1, 1, 1], [1, - 1, 1], [1, 1, 1]] int64"
  have a: "create_mask ''laplacian'' = Inr ?im"
    by (simp add: create_mask_def)
  have b: "examine ?im None None None None None =
         Inr (''[3 x 3 region of 3 x 3-pixel monochrome image at (1,1)]:'' @ nl
              @ ''          0   1   2'' @ nl
              @ ''       ------------'' @ nl
              @ ''    0|    1   1   1'' @ nl
              @ ''    1|    1  -1   1'' @ nl
              @ ''    2|    1   1   1'' @ nl)"
    unfolding examine_def laplacian_region
    by (simp add: array2_def py_range_0_3 examine_head_def fmt_small fmt_pixel2_def
          norm_index_def start_def nl_def Let_def)
  have c: "map (fmt_wd 4) (data ?im) =
         [''   1'', ''   1'', ''   1'', ''   1'', ''  -1'', ''   1'', ''   1'', ''   1'', ''   1'']"
    by (simp add: array2_def fmt_small)
  show ?thesis
    by (rule exI [of _ ?im]) (intro conjI a b c)
qed

lemma py_range_iff: "x \<in> set (py_range lo hi) \<longleftrightarrow> lo \<le> x \<and> x < hi"
  by (auto simp add: py_range_def)

lemma py_range_empty: "hi \<le> lo \<Longrightarrow> py_range lo hi = []"
  by (simp add: py_range_def)

lemma norm_index_in: "0 \<le> i \<Longrightarrow> i < int n \<Longrightarrow> norm_index n i = Inr (nat i)"
  by (simp add: norm_index_def)

lemma fmt_pixel2_in:
  assumes "shape im = [ny, nx]" and "0 \<le> y" and "y < int ny" and "0 \<le> x" and "x < int nx"
  shows "fmt_pixel2 im y x = Inr (fmt_wd 4 (data im ! (nat y * nx + nat x)))"
  using assms by (simp add: fmt_pixel2_def norm_index_in)

lemma pixels2_in:
  assumes "shape im = [ny, nx]" and "0 \<le> y" and "y < int ny"
    and "\<forall>x\<in>set xs. 0 \<le> x \<and> x < int nx"
  shows "pixels2 im y xs out =
     Inr (out @ concat (map (\<lambda>x. fmt_wd 4 (data im ! (nat y * nx + nat x))) xs))"
  using assms(4)
proof (induction xs arbitrary: out)
  case Nil
  then show ?case by simp
next
  case (Cons x xs)
  have "fmt_pixel2 im y x = Inr (fmt_wd 4 (data im ! (nat y * nx + nat x)))"
    using Cons.prems assms(1-3) by (simp add: fmt_pixel2_in)
  then show ?case using Cons by simp
qed

lemma examine_lines_in:
  assumes "shape im = [ny, nx]" and "\<forall>x\<in>set xs. 0 \<le> x \<and> x < int nx"
    and "\<forall>y\<in>set ys. 0 \<le> y \<and> y < int ny"
  shows "examine_lines im 0 xs ys out =
     Inr (out @ concat (map (\<lambda>y. fmt_wd 5 y @ ''| ''
            @ concat (map (\<lambda>x. fmt_wd 4 (data im ! (nat y * nx + nat x))) xs) @ nl) ys))"
  using assms(3)
proof (induction ys arbitrary: out)
  case Nil
  then show ?case by simp
next
  case (Cons y ys)
  have "pixels2 im y xs (out @ fmt_wd 5 y @ ''| '') =
     Inr ((out @ fmt_wd 5 y @ ''| '')
          @ concat (map (\<lambda>x. fmt_wd 4 (data im ! (nat y * nx + nat x))) xs))"
    using Cons.prems assms(1,2) by (simp add: pixels2_in)
  then show ?case using Cons by (simp add: Let_def)
qed

lemma region_lo_hi:
  "0 \<le> ylo (examine_region im aty atx rws cls)"
  "yhi (examine_region im aty atx rws cls) \<le> int (shape im ! 0)"
  "0 \<le> xlo (examine_region im aty atx rws cls)"
  "xhi (examine_region im aty atx rws cls) \<le> int (shape im ! 1)"
  "length (shape im) < 3 \<Longrightarrow> im_nc (examine_region im aty atx rws cls) = 0"
  unfolding examine_region_def Let_def by simp_all

lemma flat_index_bound:
  fixes y x ny nx :: nat
  assumes "y < ny" and "x < nx"
  shows "y * nx + x < ny * nx"
proof -
  have "y * nx + x < y * nx + nx" using assms(2) by simp
  also have "\<dots> = Suc y * nx" by simp
  also have "\<dots> \<le> ny * nx" using assms(1) by (intro mult_le_mono1) simp
  finally show ?thesis .
qed

text \<open>
  Claim C10, as amended. For every image of two axes and all centres and counts, given or
  omitted, \<^verbatim>\<open>examine\<close> returns a text and raises nothing: every pair of subscripts it
  reads lies inside the image. When the region has no rows the text is the header lines
  alone; when it has rows but no columns the text has, after the header lines, one line
  for each row of the region that holds the label of the row and no sample.
\<close>

theorem examine_monochrome_total:
  assumes "shape im = [ny, nx]" and "r = examine_region im aty atx rws cls"
  shows "examine im aty atx rws cls title =
       Inr (examine_head r title
            @ concat (map (\<lambda>y. fmt_wd 5 y @ ''| ''
                @ concat (map (\<lambda>x. fmt_wd 4 (data im ! (nat y * nx + nat x)))
                    (py_range (xlo r) (xhi r))) @ nl)
                (py_range (ylo r) (yhi r))))
     \<and> (\<forall>y\<in>set (py_range (ylo r) (yhi r)). \<forall>x\<in>set (py_range (xlo r) (xhi r)).
          0 \<le> y \<and> y < int ny \<and> 0 \<le> x \<and> x < int nx
          \<and> nat y * nx + nat x < ny * nx
          \<and> fmt_pixel2 im y x = Inr (fmt_wd 4 (data im ! (nat y * nx + nat x))))
     \<and> (yhi r \<le> ylo r \<longrightarrow> examine im aty atx rws cls title = Inr (examine_head r title))
     \<and> (xhi r \<le> xlo r \<longrightarrow>
          examine im aty atx rws cls title =
            Inr (examine_head r title
                 @ concat (map (\<lambda>y. fmt_wd 5 y @ ''| '' @ nl) (py_range (ylo r) (yhi r)))))"
proof -
  have len: "\<not> length (shape im) < 2" "length (shape im) < 3"
    using assms(1) by simp_all
  have ext: "int (shape im ! 0) = int ny" "int (shape im ! 1) = int nx"
    using assms(1) by simp_all
  have nc: "im_nc r = 0"
    unfolding assms(2) using len(2) by (rule region_lo_hi(5))
  have yb: "0 \<le> ylo r" "yhi r \<le> int ny"
    unfolding assms(2) using region_lo_hi(1,2) [of im aty atx rws cls] ext(1) by simp_all
  have xb: "0 \<le> xlo r" "xhi r \<le> int nx"
    unfolding assms(2) using region_lo_hi(3,4) [of im aty atx rws cls] ext(2) by simp_all
  have ys: "\<forall>y\<in>set (py_range (ylo r) (yhi r)). 0 \<le> y \<and> y < int ny"
  proof
    fix y
    assume "y \<in> set (py_range (ylo r) (yhi r))"
    then have "ylo r \<le> y" and "y < yhi r" by (simp_all add: py_range_iff)
    then show "0 \<le> y \<and> y < int ny" using yb by linarith
  qed
  have xs: "\<forall>x\<in>set (py_range (xlo r) (xhi r)). 0 \<le> x \<and> x < int nx"
  proof
    fix x
    assume "x \<in> set (py_range (xlo r) (xhi r))"
    then have "xlo r \<le> x" and "x < xhi r" by (simp_all add: py_range_iff)
    then show "0 \<le> x \<and> x < int nx" using xb by linarith
  qed
  have main: "examine im aty atx rws cls title =
       Inr (examine_head r title
            @ concat (map (\<lambda>y. fmt_wd 5 y @ ''| ''
                @ concat (map (\<lambda>x. fmt_wd 4 (data im ! (nat y * nx + nat x)))
                    (py_range (xlo r) (xhi r))) @ nl)
                (py_range (ylo r) (yhi r))))"
    using examine_lines_in [OF assms(1) xs ys, of "examine_head r title"] len(1) nc
    by (simp add: examine_def Let_def assms(2) [symmetric])
  have reads: "\<forall>y\<in>set (py_range (ylo r) (yhi r)). \<forall>x\<in>set (py_range (xlo r) (xhi r)).
          0 \<le> y \<and> y < int ny \<and> 0 \<le> x \<and> x < int nx
          \<and> nat y * nx + nat x < ny * nx
          \<and> fmt_pixel2 im y x = Inr (fmt_wd 4 (data im ! (nat y * nx + nat x)))"
  proof (intro ballI)
    fix y x
    assume "y \<in> set (py_range (ylo r) (yhi r))" and "x \<in> set (py_range (xlo r) (xhi r))"
    then have b: "0 \<le> y" "y < int ny" "0 \<le> x" "x < int nx"
      using ys xs by blast+
    have "nat y < ny" and "nat x < nx" using b by simp_all
    then have "nat y * nx + nat x < ny * nx" by (rule flat_index_bound)
    then show "0 \<le> y \<and> y < int ny \<and> 0 \<le> x \<and> x < int nx
          \<and> nat y * nx + nat x < ny * nx
          \<and> fmt_pixel2 im y x = Inr (fmt_wd 4 (data im ! (nat y * nx + nat x)))"
      using b fmt_pixel2_in [OF assms(1) b] by blast
  qed
  have rows_out: "yhi r \<le> ylo r \<longrightarrow> examine im aty atx rws cls title = Inr (examine_head r title)"
    using main by (simp add: py_range_empty)
  have cols_out: "xhi r \<le> xlo r \<longrightarrow>
          examine im aty atx rws cls title =
            Inr (examine_head r title
                 @ concat (map (\<lambda>y. fmt_wd 5 y @ ''| '' @ nl) (py_range (ylo r) (yhi r))))"
    using main by (simp add: py_range_empty)
  show ?thesis using main reads rows_out cols_out by blast
qed

theorem examine_monochrome_total_witness:
  "examine arrowhead (Some 100) (Some 4) (Some 3) (Some 3) None =
     Inr (examine_head (examine_region arrowhead (Some 100) (Some 4) (Some 3) (Some 3)) None)
   \<and> examine arrowhead (Some 0) (Some 20) (Some 2) (Some 2) (Some ''Arrowhead'') =
     Inr (examine_head (examine_region arrowhead (Some 0) (Some 20) (Some 2) (Some 2))
            (Some ''Arrowhead'')
          @ ''    0| '' @ nl @ ''    1| '' @ nl)
   \<and> fmt_pixel2 arrowhead 3 6 = Inr '' 255''"
proof -
  have s: "shape arrowhead = [10, 9]"
    by (simp add: arrowhead_def array2_def)
  have r1: "examine_region arrowhead (Some 100) (Some 4) (Some 3) (Some 3) =
     \<lparr>im_ny = 10, im_nx = 9, im_nc = 0, at_y = 100, at_x = 4,
      ylo = 99, yhi = 10, rows = - 89, xlo = 3, xhi = 6, cols = 3\<rparr>"
    by (simp add: examine_region_def s Let_def)
  have r2: "examine_region arrowhead (Some 0) (Some 20) (Some 2) (Some 2) =
     \<lparr>im_ny = 10, im_nx = 9, im_nc = 0, at_y = 0, at_x = 20,
      ylo = 0, yhi = 2, rows = 2, xlo = 19, xhi = 9, cols = - 10\<rparr>"
    by (simp add: examine_region_def s Let_def)
  have r3: "examine_region arrowhead None None None None =
     \<lparr>im_ny = 10, im_nx = 9, im_nc = 0, at_y = 5, at_x = 4,
      ylo = 0, yhi = 10, rows = 10, xlo = 0, xhi = 9, cols = 9\<rparr>"
    by (simp add: examine_region_def s Let_def)
  have f: "fmt_wd 5 0 = ''    0''" "fmt_wd 5 1 = ''    1''" "fmt_wd 4 255 = '' 255''"
    by code_simp+
  have rg: "py_range 0 2 = [0, 1]"
    by code_simp
  have a: "examine arrowhead (Some 100) (Some 4) (Some 3) (Some 3) None =
     Inr (examine_head (examine_region arrowhead (Some 100) (Some 4) (Some 3) (Some 3)) None)"
    using examine_monochrome_total [OF s refl, of "Some 100" "Some 4" "Some 3" "Some 3" None,
        THEN conjunct2, THEN conjunct2, THEN conjunct1]
    by (simp add: r1)
  have b: "examine arrowhead (Some 0) (Some 20) (Some 2) (Some 2) (Some ''Arrowhead'') =
     Inr (examine_head (examine_region arrowhead (Some 0) (Some 20) (Some 2) (Some 2))
            (Some ''Arrowhead'')
          @ ''    0| '' @ nl @ ''    1| '' @ nl)"
    using examine_monochrome_total [OF s refl, of "Some 0" "Some 20" "Some 2" "Some 2"
        "Some ''Arrowhead''", THEN conjunct2, THEN conjunct2, THEN conjunct2]
    by (simp add: r2 rg f)
  have "\<forall>y\<in>set (py_range 0 10). \<forall>x\<in>set (py_range 0 9).
      fmt_pixel2 arrowhead y x = Inr (fmt_wd 4 (data arrowhead ! (nat y * 9 + nat x)))"
    using examine_monochrome_total [OF s refl, of None None None None None,
        THEN conjunct2, THEN conjunct1]
    by (simp add: r3)
  moreover have "3 \<in> set (py_range 0 10)" and "6 \<in> set (py_range 0 9)"
    by (simp_all add: py_range_iff)
  ultimately have "fmt_pixel2 arrowhead 3 6 = Inr (fmt_wd 4 (data arrowhead ! (nat 3 * 9 + nat 6)))"
    by blast
  moreover have "data arrowhead ! (nat 3 * 9 + nat 6) = 255"
    by (simp add: arrowhead_def array2_def)
  ultimately have c: "fmt_pixel2 arrowhead 3 6 = Inr '' 255''"
    by (simp add: f)
  show ?thesis using a b c by blast
qed

text \<open>
  Claim C10 as stated fails: a region that lies beyond the last column, with rows inside
  the image, gives one line for each of its rows after the header lines.
\<close>

theorem examine_outside_columns_counterexample:
  "examine arrowhead (Some 5) (Some 100) (Some 3) (Some 3) None =
     Inr (''[3 x -90 region of 10 x 9-pixel monochrome image at (5,100)]:'' @ nl
          @ ''       '' @ nl
          @ ''       '' @ nl
          @ ''    4| '' @ nl
          @ ''    5| '' @ nl
          @ ''    6| '' @ nl)
   \<and> examine_head (examine_region arrowhead (Some 5) (Some 100) (Some 3) (Some 3)) None =
     ''[3 x -90 region of 10 x 9-pixel monochrome image at (5,100)]:'' @ nl
          @ ''       '' @ nl
          @ ''       '' @ nl
   \<and> examine arrowhead (Some 5) (Some 100) (Some 3) (Some 3) None \<noteq>
     Inr (examine_head (examine_region arrowhead (Some 5) (Some 100) (Some 3) (Some 3)) None)"
proof -
  have s: "shape arrowhead = [10, 9]"
    by (simp add: arrowhead_def array2_def)
  have r: "examine_region arrowhead (Some 5) (Some 100) (Some 3) (Some 3) =
     \<lparr>im_ny = 10, im_nx = 9, im_nc = 0, at_y = 5, at_x = 100,
      ylo = 4, yhi = 7, rows = 3, xlo = 99, xhi = 9, cols = - 90\<rparr>"
    by (simp add: examine_region_def s Let_def)
  have f: "fmt_d 3 = ''3''" "fmt_d (- 90) = ''-90''" "fmt_d 10 = ''10''" "fmt_d 9 = ''9''"
    "fmt_d 5 = ''5''" "fmt_d 100 = ''100''"
    "fmt_wd 5 4 = ''    4''" "fmt_wd 5 5 = ''    5''" "fmt_wd 5 6 = ''    6''"
    by code_simp+
  have rg: "py_range 4 7 = [4, 5, 6]" "py_range 99 9 = []"
    by code_simp+
  have h: "examine_head (examine_region arrowhead (Some 5) (Some 100) (Some 3) (Some 3)) None =
     ''[3 x -90 region of 10 x 9-pixel monochrome image at (5,100)]:'' @ nl
          @ ''       '' @ nl
          @ ''       '' @ nl"
    unfolding r by (simp add: examine_head_def rg f start_def Let_def)
  have e: "examine arrowhead (Some 5) (Some 100) (Some 3) (Some 3) None =
     Inr (examine_head (examine_region arrowhead (Some 5) (Some 100) (Some 3) (Some 3)) None
          @ ''    4| '' @ nl @ ''    5| '' @ nl @ ''    6| '' @ nl)"
    unfolding examine_def by (simp add: s r rg f Let_def)
  show ?thesis
    unfolding e unfolding h by (simp add: nl_def)
qed

end
